theory Spec2Isabelle
  imports Main
begin

section \<open>PicoTagEditor: a shallow embedding of the two implementations\<close>

text \<open>
  The repository holds two versions of the same widget: \<^verbatim>\<open>PicoTagEditor.js\<close> and a second
  file whose name is not known (\<^verbatim>\<open>unnamed/part_000\<close>).  Definitions taken from the first keep
  the source's names; definitions taken from the second carry the suffix \<open>_p0\<close>.

  The DOM is modelled by the parts of it the widget reads and writes: the text field with
  its attributes and current value, the list of chips inside the tag-list region, the
  in-line \<^verbatim>\<open>display\<close> style of that region, the three dimension styles, the
  \<^verbatim>\<open>data-focus\<close> attribute of the wrapper and whether the text field is the focused element.
  Strings are lists of characters with codes below 256.
\<close>

subsection \<open>Strings\<close>

text \<open>\<^verbatim>\<open>\d\<close> of a JavaScript regular expression: the ten ASCII digits.\<close>

definition is_digit :: "char \<Rightarrow> bool" where
  "is_digit c = (c \<in> set ''0123456789'')"

text \<open>
  The characters \<^verbatim>\<open>String.prototype.trim\<close> strips (white space and line terminators),
  among the codes below 256: TAB, LF, VT, FF, CR, SPACE and NBSP.
\<close>

definition is_space :: "char \<Rightarrow> bool" where
  "is_space c = (c \<in> set [CHR 0x09, CHR 0x0A, CHR 0x0B, CHR 0x0C, CHR 0x0D, CHR 0x20, CHR 0xA0])"

definition trim :: "string \<Rightarrow> string" where
  "trim s = rev (dropWhile is_space (rev (dropWhile is_space s)))"

text \<open>
  The test \<^verbatim>\<open>/^-?\d+(\.\d+)?$/\<close>: an optional minus sign, then (\<open>unsigned_numeral\<close>) one or
  more digits and optionally a dot followed by one or more digits, up to the end of the
  string.
\<close>

definition unsigned_numeral :: "string \<Rightarrow> bool" where
  "unsigned_numeral s1 =
     (takeWhile is_digit s1 \<noteq> [] \<and>
      (case dropWhile is_digit s1 of
         [] \<Rightarrow> True
       | c # frac \<Rightarrow> c = CHR ''.'' \<and> frac \<noteq> [] \<and> list_all is_digit frac))"

definition numeral_regex :: "string \<Rightarrow> bool" where
  "numeral_regex s =
     unsigned_numeral (case s of [] \<Rightarrow> [] | c # r \<Rightarrow> if c = CHR ''-'' then r else s)"

text \<open>The class attribute split into its tokens at ASCII white space, as a class selector reads it.\<close>

definition is_ascii_ws :: "char \<Rightarrow> bool" where
  "is_ascii_ws c = (c \<in> set [CHR 0x09, CHR 0x0A, CHR 0x0C, CHR 0x0D, CHR 0x20])"

fun split_ws :: "string \<Rightarrow> string \<Rightarrow> string list" where
  "split_ws cur [] = (if cur = [] then [] else [cur])"
| "split_ws cur (c # cs) =
     (if is_ascii_ws c then (if cur = [] then split_ws [] cs else cur # split_ws [] cs)
      else split_ws (cur @ [c]) cs)"

definition has_class :: "string \<Rightarrow> string option \<Rightarrow> bool" where
  "has_class cls attr = (case attr of None \<Rightarrow> False | Some s \<Rightarrow> cls \<in> set (split_ws [] s))"

subsection \<open>Dimension values\<close>

text \<open>
  A JavaScript number is modelled by what the language's conversion to a string reads off
  it: not-a-number, the two infinities, zero (of either sign), or a sign with the decimal
  digits \<open>s\<close> (a positive integer, without a trailing zero) and the exponent \<open>n\<close> such that
  the number's magnitude is \<open>s \<times> 10\<^sup>n\<^sup>-\<^sup>k\<close>, where \<open>k\<close> is the number of digits of \<open>s\<close>.  So
  \<open>120\<close> is \<open>Dec False 12 3\<close>, \<open>12.5\<close> is \<open>Dec False 125 2\<close> and \<open>1e21\<close> is \<open>Dec False 1 22\<close>.
\<close>

datatype number = NaN | PlusInfinity | MinusInfinity | Zero | Dec bool nat int

fun decimal :: "nat \<Rightarrow> string" where
  "decimal n = (if n < 10 then [''0123456789'' ! n] else decimal (n div 10) @ [''0123456789'' ! (n mod 10)])"

declare decimal.simps [simp del]

text \<open>
  \<^verbatim>\<open>Number::toString\<close> of the language, for the digits \<open>s\<close> and the exponent \<open>n\<close>: the
  digits followed by zeros, the digits with a dot inside, a zero and a dot before the
  digits, or the exponent form.
\<close>

definition exponent_part :: "int \<Rightarrow> string" where
  "exponent_part n =
     CHR ''e'' # (if n - 1 < 0 then CHR ''-'' else CHR ''+'') # decimal (nat \<bar>n - 1\<bar>)"

definition digits_to_string :: "nat \<Rightarrow> int \<Rightarrow> string" where
  "digits_to_string s n =
     (let ds = decimal s; k = int (length ds) in
      if k \<le> n \<and> n \<le> 21 then ds @ replicate (nat (n - k)) CHR ''0''
      else if 0 < n \<and> n \<le> 21 then take (nat n) ds @ CHR ''.'' # drop (nat n) ds
      else if - 6 < n \<and> n \<le> 0 then ''0.'' @ replicate (nat (- n)) CHR ''0'' @ ds
      else if k = 1 then ds @ exponent_part n
      else hd ds # CHR ''.'' # tl ds @ exponent_part n)"

fun number_to_string :: "number \<Rightarrow> string" where
  "number_to_string NaN = ''NaN''"
| "number_to_string PlusInfinity = ''Infinity''"
| "number_to_string MinusInfinity = ''-Infinity''"
| "number_to_string Zero = ''0''"
| "number_to_string (Dec neg s n) =
     (if neg then CHR ''-'' # digits_to_string s n else digits_to_string s n)"

text \<open>A dimension option is \<^verbatim>\<open>undefined\<close>, a number or a string.\<close>

datatype dimension = Unset | Num number | Str string

fun to_string :: "dimension \<Rightarrow> string" where
  "to_string Unset = ''undefined''"
| "to_string (Num x) = number_to_string x"
| "to_string (Str s) = s"

fun truthy :: "dimension \<Rightarrow> bool" where
  "truthy Unset = False"
| "truthy (Num x) = (x \<noteq> Zero \<and> x \<noteq> NaN)"
| "truthy (Str s) = (s \<noteq> [])"

text \<open>The numbers that print without an exponent: zero, and the magnitudes from \<open>1e-6\<close> up to \<open>1e21\<close>.\<close>

fun plain_decimal :: "number \<Rightarrow> bool" where
  "plain_decimal Zero = True"
| "plain_decimal (Dec neg s n) = (- 6 < n \<and> n \<le> 21)"
| "plain_decimal x = False"

text \<open>\<^verbatim>\<open>isNumber\<close> (the same in both files): the regular expression tested on the value's string.\<close>

definition isNumber :: "dimension \<Rightarrow> bool" where
  "isNumber v = numeral_regex (to_string v)"

subsection \<open>Data model\<close>

text \<open>A chip: the \<^verbatim>\<open>div.pico-tag\<close> with its text and its hidden input.\<close>

record chip =
  chip_text :: string
  hidden_name :: string
  hidden_value :: string

text \<open>
  An input element: the attributes the widget copies, the current value, and, since
  \<^verbatim>\<open>addTag\<close> can be led to use the text field as its container, the chips appended to the
  element itself and its own in-line \<^verbatim>\<open>display\<close> style.  An input of parsed markup has no
  children.
\<close>

record text_field =
  fname :: "string option"
  fid :: "string option"
  fclass :: "string option"
  fplaceholder :: "string option"
  fvalue :: string
  fchips :: "chip list"
  fdisplay :: string

record settings_rec =
  debug :: bool
  width :: dimension
  height :: dimension
  maxHeight :: dimension
  trimInput :: bool

text \<open>The options object of the caller: a property that is absent is \<open>None\<close> or \<open>Unset\<close>.\<close>

record options =
  opt_debug :: "bool option"
  opt_width :: dimension
  opt_height :: dimension
  opt_maxHeight :: dimension
  opt_trimInput :: "bool option"

text \<open>
  The widget: the fields of the object (\<open>settings\<close>, \<open>name\<close> with \<open>None\<close> for
  \<^verbatim>\<open>null\<close>, \<open>mouseEnter\<close>, \<open>inputElement\<close>) and the state of its DOM.  \<open>display\<close> is the
  in-line style of the tag-list region (\<^verbatim>\<open>'none'\<close> or empty); a dimension style is \<open>None\<close>
  as long as nothing was assigned to it; \<open>listening\<close> holds once the listeners of the
  event-attachment step are attached.
\<close>

record widget =
  settings :: settings_rec
  name :: "string option"
  mouseEnter :: bool
  inputElement :: text_field
  focused :: bool
  data_focus :: "string option"
  tags :: "chip list"
  display :: string
  style_width :: "string option"
  style_height :: "string option"
  style_maxHeight :: "string option"
  listening :: bool

datatype error = TypeError | NotFoundError

text \<open>How a handler ends: normally, or by an exception; its changes to the state stay either way.\<close>

datatype completion = Normal | Throw error

subsection \<open>Construction\<close>

text \<open>The defaults with the caller's options spread over them (both files).\<close>

definition merge_settings :: "options option \<Rightarrow> settings_rec" where
  "merge_settings opts =
     (case opts of
        None \<Rightarrow> \<lparr>debug = False, width = Unset, height = Unset, maxHeight = Unset, trimInput = False\<rparr>
      | Some p \<Rightarrow>
          \<lparr>debug = (case opt_debug p of None \<Rightarrow> False | Some b \<Rightarrow> b),
           width = opt_width p, height = opt_height p, maxHeight = opt_maxHeight p,
           trimInput = (case opt_trimInput p of None \<Rightarrow> False | Some b \<Rightarrow> b)\<rparr>)"

text \<open>
  \<^verbatim>\<open>PicoTagEditor.js\<close>, the three blocks of \<^verbatim>\<open>init\<close> that style the tag-list region: a
  falsy value assigns nothing.
\<close>

definition styled :: "dimension \<Rightarrow> string option" where
  "styled v =
     (if truthy v then Some (if isNumber v then to_string v @ ''px'' else to_string v)
      else None)"

text \<open>
  \<^verbatim>\<open>init\<close> of \<^verbatim>\<open>PicoTagEditor.js\<close>: the text field is a clone of the source input, the
  tag-list region starts hidden.  \<open>name\<close> keeps the value the constructor gave it, the
  empty string: \<^verbatim>\<open>init\<close> does not assign it.
\<close>

definition init :: "settings_rec \<Rightarrow> text_field \<Rightarrow> widget" where
  "init s inp =
     \<lparr>settings = s, name = Some '''', mouseEnter = False, inputElement = inp,
      focused = False, data_focus = None, tags = [], display = ''none'',
      style_width = styled (width s), style_height = styled (height s),
      style_maxHeight = styled (maxHeight s), listening = False\<rparr>"

text \<open>The query \<^verbatim>\<open>containerElement.querySelector('.pico-tag-edit')\<close>: only the text field can match.\<close>

definition find_edit :: "widget \<Rightarrow> bool" where
  "find_edit w = has_class ''pico-tag-edit'' (fclass (inputElement w))"

text \<open>\<^verbatim>\<open>addEvents\<close> of \<^verbatim>\<open>PicoTagEditor.js\<close>: returns early when the query finds nothing.\<close>

definition addEvents :: "widget \<Rightarrow> widget" where
  "addEvents w = (if \<not> find_edit w then w else w\<lparr>listening := True\<rparr>)"

text \<open>
  The constructor of \<^verbatim>\<open>PicoTagEditor.js\<close>.  The callback receives the text field between
  \<^verbatim>\<open>init\<close> and \<^verbatim>\<open>addEvents\<close>; it is modelled by what it does to that field.
\<close>

definition PicoTagEditor ::
    "text_field \<Rightarrow> options option \<Rightarrow> (text_field \<Rightarrow> text_field) option \<Rightarrow> widget" where
  "PicoTagEditor inp opts callback =
     (let w = init (merge_settings opts) inp;
          w1 = (case callback of None \<Rightarrow> w | Some f \<Rightarrow> w\<lparr>inputElement := f (inputElement w)\<rparr>)
      in addEvents w1)"

text \<open>
  The second file.  Its \<^verbatim>\<open>init\<close> reads the four attributes, stores the name, builds a new
  text input (\<^verbatim>\<open>id\<close> and \<^verbatim>\<open>placeholder\<close> only when truthy, \<^verbatim>\<open>class\<close> always, so that a
  missing class becomes the string \<^verbatim>\<open>null\<close>), and styles the region for every dimension that
  is not \<^verbatim>\<open>undefined\<close>.
\<close>

definition truthy_attr :: "string option \<Rightarrow> string option" where
  "truthy_attr a = (case a of None \<Rightarrow> None | Some s \<Rightarrow> if s = [] then None else Some s)"

definition styled_p0 :: "dimension \<Rightarrow> string option" where
  "styled_p0 v =
     (if v \<noteq> Unset then Some (if isNumber v then to_string v @ ''px'' else to_string v)
      else None)"

definition init_p0 :: "settings_rec \<Rightarrow> text_field \<Rightarrow> widget" where
  "init_p0 s inp =
     \<lparr>settings = s, name = fname inp, mouseEnter = False,
      inputElement =
        \<lparr>fname = None, fid = truthy_attr (fid inp),
         fclass = Some (case fclass inp of None \<Rightarrow> ''null'' | Some c \<Rightarrow> c),
         fplaceholder = truthy_attr (fplaceholder inp), fvalue = '''', fchips = [],
         fdisplay = ''''\<rparr>,
      focused = False, data_focus = None, tags = [], display = ''none'',
      style_width = styled_p0 (width s), style_height = styled_p0 (height s),
      style_maxHeight = styled_p0 (maxHeight s), listening = False\<rparr>"

text \<open>
  \<^verbatim>\<open>addEvent\<close> of the second file calls \<^verbatim>\<open>addEventListener\<close> on the result of the query
  at once: a query that finds nothing makes it throw before anything is attached.
\<close>

definition addEvent_p0 :: "widget \<Rightarrow> error + widget" where
  "addEvent_p0 w = (if find_edit w then Inr (w\<lparr>listening := True\<rparr>) else Inl TypeError)"

definition PicoTagEditor_p0 :: "text_field \<Rightarrow> options option \<Rightarrow> error + widget" where
  "PicoTagEditor_p0 inp opts = addEvent_p0 (init_p0 (merge_settings opts) inp)"

subsection \<open>Adding and removing tags\<close>

text \<open>
  Both \<^verbatim>\<open>addTag\<close> bodies take as their container the result of
  \<^verbatim>\<open>containerElement.querySelector('.tags-container')\<close>, the first match in document order.
  The text field precedes the tag-list region in the wrapper, so a text field that carries
  the class \<^verbatim>\<open>tags-container\<close> is itself the container; otherwise it is the region.  The
  chip is appended to the container and the container's \<^verbatim>\<open>display\<close> is emptied.
\<close>

definition field_is_container :: "widget \<Rightarrow> bool" where
  "field_is_container w = has_class ''tags-container'' (fclass (inputElement w))"

definition append_chip :: "chip \<Rightarrow> widget \<Rightarrow> widget" where
  "append_chip tag w =
     (if field_is_container w then
        w\<lparr>inputElement :=
            (inputElement w)\<lparr>fchips := fchips (inputElement w) @ [tag], fdisplay := ''''\<rparr>\<rparr>
      else w\<lparr>tags := tags w @ [tag], display := ''''\<rparr>)"

text \<open>
  \<^verbatim>\<open>addTag\<close> of \<^verbatim>\<open>PicoTagEditor.js\<close>.  \<^verbatim>\<open>name.includes('[')\<close> throws on \<^verbatim>\<open>null\<close>, before
  anything is appended.
\<close>

definition addTag :: "string option \<Rightarrow> string \<Rightarrow> widget \<Rightarrow> completion \<times> widget" where
  "addTag nm tagText w =
     (case nm of
        None \<Rightarrow> (Throw TypeError, w)
      | Some s \<Rightarrow>
          (let nm' = (if CHR ''['' \<notin> set s then s @ ''[]'' else s);
               tag = \<lparr>chip_text = tagText, hidden_name = nm', hidden_value = tagText\<rparr>
           in (Normal, append_chip tag w)))"

text \<open>
  \<^verbatim>\<open>addTag\<close> of the second file: \<^verbatim>\<open>name + '[]'\<close>, where \<^verbatim>\<open>null\<close> concatenates as the
  string \<^verbatim>\<open>null\<close>.
\<close>

definition addTag_p0 :: "string option \<Rightarrow> string \<Rightarrow> widget \<Rightarrow> widget" where
  "addTag_p0 nm tagText w =
     (let nm' = (case nm of None \<Rightarrow> ''null'' | Some s \<Rightarrow> s) @ ''[]'';
          tag = \<lparr>chip_text = tagText, hidden_name = nm', hidden_value = tagText\<rparr>
      in append_chip tag w)"

text \<open>
  The click listener of a chip keeps the container the chip was appended to.  For a chip at
  position \<open>i\<close> inside the text field (both files, in this order): remove it, focus the text
  field, hide the container when it has no chip left.
\<close>

definition field_remove_click :: "nat \<Rightarrow> widget \<Rightarrow> completion \<times> widget" where
  "field_remove_click i w =
     (let cs = fchips (inputElement w) in
      if \<not> i < length cs then (Throw NotFoundError, w)
      else
        let w1 = w\<lparr>inputElement := (inputElement w)\<lparr>fchips := take i cs @ drop (Suc i) cs\<rparr>\<rparr> in
        if \<not> find_edit w1 then (Throw TypeError, w1)
        else
          let w2 = w1\<lparr>focused := True\<rparr> in
          (Normal,
           if fchips (inputElement w2) = []
           then w2\<lparr>inputElement := (inputElement w2)\<lparr>fdisplay := ''none''\<rparr>\<rparr> else w2))"

definition field_remove_click_p0 :: "nat \<Rightarrow> widget \<Rightarrow> completion \<times> widget" where
  "field_remove_click_p0 i w =
     (let cs = fchips (inputElement w) in
      if \<not> i < length cs then (Throw NotFoundError, w)
      else
        let w1 = w\<lparr>inputElement := (inputElement w)\<lparr>fchips := take i cs @ drop (Suc i) cs\<rparr>\<rparr>;
            w2 = w1\<lparr>focused := True\<rparr>
        in (Normal,
            if fchips (inputElement w2) = []
            then w2\<lparr>inputElement := (inputElement w2)\<lparr>fdisplay := ''none''\<rparr>\<rparr> else w2))"

text \<open>
  The click listener of the remove control of the chip at position \<open>i\<close> of the region
  (\<^verbatim>\<open>PicoTagEditor.js\<close>).  \<^verbatim>\<open>removeChild\<close> throws when the chip is no longer in the region;
  the query for the text field is dereferenced without a check, so the listener throws
  after the removal when that query finds nothing.
\<close>

definition remove_click :: "nat \<Rightarrow> widget \<Rightarrow> completion \<times> widget" where
  "remove_click i w =
     (if \<not> i < length (tags w) then (Throw NotFoundError, w)
      else
        let w1 = w\<lparr>tags := take i (tags w) @ drop (Suc i) (tags w)\<rparr> in
        if \<not> find_edit w1 then (Throw TypeError, w1)
        else
          let w2 = w1\<lparr>focused := True\<rparr> in
          (Normal, if tags w2 = [] then w2\<lparr>display := ''none''\<rparr> else w2))"

text \<open>
  The same listener in the second file: the text field is found by
  \<^verbatim>\<open>input[type="text"]\<close>, which the field built by its \<^verbatim>\<open>init\<close> always matches.
\<close>

definition remove_click_p0 :: "nat \<Rightarrow> widget \<Rightarrow> completion \<times> widget" where
  "remove_click_p0 i w =
     (if \<not> i < length (tags w) then (Throw NotFoundError, w)
      else
        let w1 = w\<lparr>tags := take i (tags w) @ drop (Suc i) (tags w)\<rparr>;
            w2 = w1\<lparr>focused := True\<rparr>
        in (Normal, if tags w2 = [] then w2\<lparr>display := ''none''\<rparr> else w2))"

subsection \<open>The listeners of the text field and of the wrapper\<close>

text \<open>The key-press listener of \<^verbatim>\<open>PicoTagEditor.js\<close>; the argument is \<^verbatim>\<open>event.key\<close>.\<close>

definition on_keypress :: "string \<Rightarrow> widget \<Rightarrow> completion \<times> widget" where
  "on_keypress k w =
     (if k = ''Enter'' \<and> trim (fvalue (inputElement w)) \<noteq> '''' then
        let v0 = fvalue (inputElement w);
            v = (if trimInput (settings w) then trim v0 else v0)
        in case addTag (name w) v w of
             (Normal, w1) \<Rightarrow> (Normal, w1\<lparr>inputElement := (inputElement w1)\<lparr>fvalue := ''''\<rparr>\<rparr>)
           | (Throw e, w1) \<Rightarrow> (Throw e, w1)
      else (Normal, w))"

text \<open>The key-press listener of the second file: the value is committed as it stands.\<close>

definition on_keypress_p0 :: "string \<Rightarrow> widget \<Rightarrow> widget" where
  "on_keypress_p0 k w =
     (if k = ''Enter'' \<and> trim (fvalue (inputElement w)) \<noteq> '''' then
        let w1 = addTag_p0 (name w) (fvalue (inputElement w)) w
        in w1\<lparr>inputElement := (inputElement w1)\<lparr>fvalue := ''''\<rparr>\<rparr>
      else w)"

text \<open>The focus, blur, mouse-enter and mouse-leave listeners (the same in both files).\<close>

definition on_focus :: "widget \<Rightarrow> widget" where
  "on_focus w = w\<lparr>data_focus := Some ''true''\<rparr>"

definition on_blur :: "widget \<Rightarrow> widget" where
  "on_blur w =
     w\<lparr>data_focus := Some (if debug (settings w) \<or> mouseEnter w then ''true'' else ''false'')\<rparr>"

definition on_mouseenter :: "widget \<Rightarrow> widget" where
  "on_mouseenter w = w\<lparr>mouseEnter := True\<rparr>"

definition on_mouseleave :: "widget \<Rightarrow> widget" where
  "on_mouseleave w = w\<lparr>mouseEnter := False\<rparr>"

subsection \<open>Events\<close>

text \<open>
  What the page can do to a widget: press a key in the text field, move the focus to or
  from it, move the pointer over or off the wrapper, edit the text, and click the remove
  control of the chip at a position of the region or of the text field.  The browser's own part of an event (the focus moves,
  the text changes) is written out; a listener runs only once attached.  The focus event the
  browser raises for a call of \<^verbatim>\<open>focus()\<close> is an event of its own.
\<close>

datatype event =
    Keypress string
  | Focus
  | Blur
  | MouseEnter
  | MouseLeave
  | Typed string
  | RemoveClick nat
  | FieldRemoveClick nat

fun fire :: "event \<Rightarrow> widget \<Rightarrow> completion \<times> widget" where
  "fire (Keypress k) w = (if listening w then on_keypress k w else (Normal, w))"
| "fire Focus w =
     (let w1 = w\<lparr>focused := True\<rparr> in (Normal, if listening w then on_focus w1 else w1))"
| "fire Blur w =
     (let w1 = w\<lparr>focused := False\<rparr> in (Normal, if listening w then on_blur w1 else w1))"
| "fire MouseEnter w = (Normal, if listening w then on_mouseenter w else w)"
| "fire MouseLeave w = (Normal, if listening w then on_mouseleave w else w)"
| "fire (Typed s) w = (Normal, w\<lparr>inputElement := (inputElement w)\<lparr>fvalue := s\<rparr>\<rparr>)"
| "fire (RemoveClick i) w = remove_click i w"
| "fire (FieldRemoveClick i) w = field_remove_click i w"

fun fire_p0 :: "event \<Rightarrow> widget \<Rightarrow> completion \<times> widget" where
  "fire_p0 (Keypress k) w = (Normal, if listening w then on_keypress_p0 k w else w)"
| "fire_p0 Focus w =
     (let w1 = w\<lparr>focused := True\<rparr> in (Normal, if listening w then on_focus w1 else w1))"
| "fire_p0 Blur w =
     (let w1 = w\<lparr>focused := False\<rparr> in (Normal, if listening w then on_blur w1 else w1))"
| "fire_p0 MouseEnter w = (Normal, if listening w then on_mouseenter w else w)"
| "fire_p0 MouseLeave w = (Normal, if listening w then on_mouseleave w else w)"
| "fire_p0 (Typed s) w = (Normal, w\<lparr>inputElement := (inputElement w)\<lparr>fvalue := s\<rparr>\<rparr>)"
| "fire_p0 (RemoveClick i) w = remove_click_p0 i w"
| "fire_p0 (FieldRemoveClick i) w = field_remove_click_p0 i w"

text \<open>The states a widget can be in: as constructed, and after any sequence of events.\<close>

inductive reachable :: "widget \<Rightarrow> bool" where
  constructed: "reachable (PicoTagEditor inp opts callback)"
| after_event: "reachable w \<Longrightarrow> reachable (snd (fire ev w))"

inductive reachable_p0 :: "widget \<Rightarrow> bool" where
  constructed_p0: "PicoTagEditor_p0 inp opts = Inr w \<Longrightarrow> reachable_p0 w"
| after_event_p0: "reachable_p0 w \<Longrightarrow> reachable_p0 (snd (fire_p0 ev w))"

text \<open>Running a sequence of events, for concrete runs.\<close>

fun run :: "event list \<Rightarrow> widget \<Rightarrow> widget" where
  "run [] w = w"
| "run (ev # evs) w = run evs (snd (fire ev w))"

fun run_p0 :: "event list \<Rightarrow> widget \<Rightarrow> widget" where
  "run_p0 [] w = w"
| "run_p0 (ev # evs) w = run_p0 evs (snd (fire_p0 ev w))"

subsection \<open>Example inputs\<close>

text \<open>
  The markup of the README (\<^verbatim>\<open><input type="text" class="pico-tag-edit" ...>\<close>) with the
  name \<^verbatim>\<open>tags\<close>; an input without the class by which the text field is looked up; an input
  that carries the class of the tag-list region as well; and two option objects.
\<close>

definition tags_input :: text_field where
  "tags_input =
     \<lparr>fname = Some ''tags'', fid = None, fclass = Some ''pico-tag-edit'',
      fplaceholder = Some ''Add tag...'', fvalue = '''', fchips = [], fdisplay = ''''\<rparr>"

definition unclassed_input :: text_field where
  "unclassed_input =
     \<lparr>fname = Some ''tags'', fid = None, fclass = Some ''search-box'',
      fplaceholder = None, fvalue = '''', fchips = [], fdisplay = ''''\<rparr>"


definition trim_options :: options where
  "trim_options =
     \<lparr>opt_debug = None, opt_width = Unset, opt_height = Unset, opt_maxHeight = Unset,
      opt_trimInput = Some True\<rparr>"

definition size_options :: options where
  "size_options =
     \<lparr>opt_debug = None, opt_width = Str ''50%'', opt_height = Str ''120'', opt_maxHeight = Num (Dec False 12 3),
      opt_trimInput = None\<rparr>"

subsection \<open>The three dimension options\<close>

text \<open>
  The source treats \<^verbatim>\<open>width\<close>, \<^verbatim>\<open>height\<close> and \<^verbatim>\<open>maxHeight\<close> alike, each in a block of its
  own; \<open>configured\<close> reads an option from the settings and \<open>applied\<close> reads the style it ends
  up in.
\<close>

datatype dim_option = Width | Height | MaxHeight

fun configured :: "dim_option \<Rightarrow> settings_rec \<Rightarrow> dimension" where
  "configured Width s = width s"
| "configured Height s = height s"
| "configured MaxHeight s = maxHeight s"

fun applied :: "dim_option \<Rightarrow> widget \<Rightarrow> string option" where
  "applied Width w = style_width w"
| "applied Height w = style_height w"
| "applied MaxHeight w = style_maxHeight w"

text \<open>
  Two commits, of \<^verbatim>\<open>red\<close> and of \<^verbatim>\<open>blue\<close>, and the widgets they lead to from the example
  input: \<open>built_p0\<close> is what the constructor of the second file returns for it.
\<close>

definition red_blue :: "event list" where
  "red_blue = [Typed ''red'', Keypress ''Enter'', Typed ''blue'', Keypress ''Enter'']"

definition two_tags :: widget where
  "two_tags = run red_blue (PicoTagEditor tags_input None None)"

definition built_p0 :: widget where
  "built_p0 = (init_p0 (merge_settings None) tags_input)\<lparr>listening := True\<rparr>"

definition two_tags_p0 :: widget where
  "two_tags_p0 = run_p0 red_blue built_p0"

subsection \<open>Invariants of the reachable states\<close>

text \<open>
  What every reachable state of \<^verbatim>\<open>PicoTagEditor.js\<close> satisfies: the region is hidden exactly
  when it has no chip, chips exist only where the listeners are attached, the listeners are
  attached exactly where the text field is found, and \<open>name\<close> is still the empty string.  For
  the second file: the same visibility, and the listeners are attached.
\<close>

definition stable :: "widget \<Rightarrow> bool" where
  "stable w =
     (display w = (if tags w = [] then ''none'' else '''') \<and>
      (tags w \<noteq> [] \<longrightarrow> listening w) \<and> listening w = find_edit w \<and>
      name w = Some '''')"

definition stable_p0 :: "widget \<Rightarrow> bool" where
  "stable_p0 w = (display w = (if tags w = [] then ''none'' else '''') \<and> listening w)"

section \<open>Properties\<close>

subsection \<open>Numbers and strings\<close>

text \<open>
  \<open>numeral_regex_number\<close> below: a number's string matches the numeral pattern exactly when
  it prints without an exponent.
\<close>

lemma decimal_digits: "decimal n \<noteq> [] \<and> list_all is_digit (decimal n)"
proof (induction n rule: decimal.induct)
  case (1 n)
  have d: "is_digit (''0123456789'' ! k)" if "k < 10" for k
  proof -
    from that have "k \<in> {0,1,2,3,4,5,6,7,8,9}" by auto
    then show ?thesis by (auto simp: is_digit_def)
  qed
  show ?case
  proof (cases "n < 10")
    case True
    then show ?thesis by (subst decimal.simps, subst (2) decimal.simps) (simp add: d)
  next
    case False
    then show ?thesis using 1 by (subst decimal.simps, subst (2) decimal.simps) (simp add: d)
  qed
qed

lemma not_digit_chars:
  "\<not> is_digit CHR ''-''" "\<not> is_digit CHR ''.''" "\<not> is_digit CHR ''e''"
  "\<not> is_digit CHR ''N''" "\<not> is_digit CHR ''I''" "is_digit CHR ''0''"
  by (simp_all add: is_digit_def)

lemma unsigned_digits:
  assumes "ds \<noteq> []" "list_all is_digit ds"
  shows "unsigned_numeral ds"
proof -
  have "takeWhile is_digit ds = ds" "dropWhile is_digit ds = []"
    using assms(2) by (simp_all add: list_all_iff)
  then show ?thesis using assms(1) by (simp only: unsigned_numeral_def list.case simp_thms)
qed

lemma split_at_nondigit:
  assumes "list_all is_digit a" "\<not> is_digit c"
  shows "takeWhile is_digit (a @ c # r) = a" "dropWhile is_digit (a @ c # r) = c # r"
  using assms by (simp_all add: list_all_iff takeWhile_append2 dropWhile_append2)

lemma unsigned_fraction:
  assumes "a \<noteq> []" "list_all is_digit a" "b \<noteq> []" "list_all is_digit b"
  shows "unsigned_numeral (a @ CHR ''.'' # b)"
  using assms
  by (simp only: unsigned_numeral_def split_at_nondigit [OF assms(2) not_digit_chars(2)]
      list.case simp_thms)

lemma unsigned_not_exponent:
  assumes "list_all is_digit a"
  shows "\<not> unsigned_numeral (a @ CHR ''e'' # r)"
  by (simp add: unsigned_numeral_def split_at_nondigit [OF assms not_digit_chars(3)])

lemma unsigned_not_fraction_exponent:
  assumes "list_all is_digit a"
  shows "\<not> unsigned_numeral (a @ CHR ''.'' # b @ CHR ''e'' # r)"
  by (simp add: unsigned_numeral_def split_at_nondigit [OF assms not_digit_chars(2)]
      not_digit_chars(3))

lemma digits_to_string_regex:
  "unsigned_numeral (digits_to_string s n) \<longleftrightarrow> - 6 < n \<and> n \<le> 21"
proof -
  define ds where "ds = decimal s"
  have ne: "ds \<noteq> []" and dg: "list_all is_digit ds"
    using decimal_digits [of s] by (simp_all add: ds_def)
  consider (a) "int (length ds) \<le> n" "n \<le> 21"
    | (b) "\<not> int (length ds) \<le> n" "0 < n" "n \<le> 21"
    | (c) "- 6 < n" "n \<le> 0"
    | (d) "n > 21 \<or> n \<le> - 6" "int (length ds) = 1"
    | (e) "n > 21 \<or> n \<le> - 6" "int (length ds) \<noteq> 1"
    by linarith
  then show ?thesis
  proof cases
    case a
    have "unsigned_numeral (ds @ replicate (nat (n - int (length ds))) CHR ''0'')"
      using ne dg by (intro unsigned_digits) (auto simp: list_all_iff not_digit_chars)
    with a ne show ?thesis by (simp add: digits_to_string_def Let_def ds_def [symmetric])
  next
    case b
    have t: "take (nat n) ds \<noteq> []" "drop (nat n) ds \<noteq> []"
      using b ne by auto
    have "list_all is_digit (take (nat n) ds)" "list_all is_digit (drop (nat n) ds)"
      using dg by (auto simp: list_all_iff dest: in_set_takeD in_set_dropD)
    with t have "unsigned_numeral (take (nat n) ds @ CHR ''.'' # drop (nat n) ds)"
      by (intro unsigned_fraction)
    with b show ?thesis by (simp add: digits_to_string_def Let_def ds_def [symmetric])
  next
    case c
    have "unsigned_numeral (''0'' @ CHR ''.'' # (replicate (nat (- n)) CHR ''0'' @ ds))"
      using ne dg by (intro unsigned_fraction) (auto simp: list_all_iff not_digit_chars)
    moreover have "\<not> int (length ds) \<le> n" using c ne by (cases ds) auto
    ultimately show ?thesis using c
      by (simp add: digits_to_string_def Let_def ds_def [symmetric])
  next
    case d
    have "\<not> unsigned_numeral (ds @ exponent_part n)"
      unfolding exponent_part_def using dg by (rule unsigned_not_exponent)
    with d show ?thesis by (auto simp: digits_to_string_def Let_def ds_def [symmetric])
  next
    case e
    have "list_all is_digit [hd ds]" using ne dg by (cases ds) auto
    then have "\<not> unsigned_numeral ([hd ds] @ CHR ''.'' # tl ds @ exponent_part n)"
      unfolding exponent_part_def by (rule unsigned_not_fraction_exponent)
    with e show ?thesis by (auto simp: digits_to_string_def Let_def ds_def [symmetric])
  qed
qed

lemma digits_to_string_hd: "\<exists>c r. digits_to_string s n = c # r \<and> is_digit c"
proof -
  obtain c r where ds: "decimal s = c # r" and c: "is_digit c"
    using decimal_digits [of s] by (cases "decimal s") auto
  show ?thesis
    by (cases "nat n") (auto simp: digits_to_string_def Let_def ds c not_digit_chars)
qed

lemma numeral_regex_number: "numeral_regex (number_to_string x) \<longleftrightarrow> plain_decimal x"
proof (cases x)
  case (Dec neg s n)
  obtain c r where h: "digits_to_string s n = c # r" "is_digit c"
    using digits_to_string_hd by blast
  then have "c \<noteq> CHR ''-''" using not_digit_chars(1) by auto
  with h have "numeral_regex (digits_to_string s n) = unsigned_numeral (digits_to_string s n)"
    by (simp add: numeral_regex_def)
  moreover have "numeral_regex (CHR ''-'' # digits_to_string s n)
      = unsigned_numeral (digits_to_string s n)"
    by (simp add: numeral_regex_def)
  ultimately show ?thesis using Dec by (simp add: digits_to_string_regex)
qed (simp_all add: numeral_regex_def unsigned_numeral_def is_digit_def)

lemma isNumber_Num: "isNumber (Num x) \<longleftrightarrow> plain_decimal x"
  by (simp add: isNumber_def numeral_regex_number)

lemma example_digits:
  "digits_to_string 12 3 = ''120''"
  "digits_to_string 125 2 = ''12.5''"
  "digits_to_string (Suc 0) 22 = ''1e+21''"
  by (simp_all add: digits_to_string_def exponent_part_def decimal.simps Let_def)

lemma trim_empty_iff: "trim s = [] \<longleftrightarrow> list_all is_space s"
proof -
  have "trim s = [] \<longleftrightarrow> (\<forall>c \<in> set (dropWhile is_space s). is_space c)"
    by (simp add: trim_def dropWhile_eq_Nil_conv)
  also have "\<dots> \<longleftrightarrow> dropWhile is_space s = []"
  proof
    assume a: "\<forall>c \<in> set (dropWhile is_space s). is_space c"
    show "dropWhile is_space s = []"
    proof (rule ccontr)
      assume "dropWhile is_space s \<noteq> []"
      then have "\<not> is_space (hd (dropWhile is_space s))" "hd (dropWhile is_space s) \<in> set (dropWhile is_space s)"
        by (simp_all add: hd_dropWhile)
      with a show False by blast
    qed
  next
    assume "dropWhile is_space s = []"
    then show "\<forall>c \<in> set (dropWhile is_space s). is_space c" by (simp only: list.set ball_empty)
  qed
  also have "\<dots> \<longleftrightarrow> list_all is_space s"
    by (simp add: dropWhile_eq_Nil_conv list_all_iff)
  finally show ?thesis .
qed


subsection \<open>The invariants hold in every reachable state\<close>

text \<open>
  \<open>reachable_hidden_names\<close> below: whatever the source input is called, every hidden input
  that \<^verbatim>\<open>PicoTagEditor.js\<close> creates in the region from the page's events is named \<^verbatim>\<open>[]\<close>.
\<close>

lemma stable_constructed: "stable (PicoTagEditor inp opts callback)"
  by (cases callback) (simp_all add: stable_def find_edit_def PicoTagEditor_def init_def addEvents_def Let_def)

lemma stable_fire: "stable w \<Longrightarrow> stable (snd (fire ev w))"
proof (cases ev)
  case (Keypress k)
  assume "stable w"
  then show ?thesis using Keypress
    by (auto simp: stable_def find_edit_def on_keypress_def addTag_def append_chip_def field_is_container_def Let_def)
next
  case (RemoveClick i)
  assume "stable w"
  then show ?thesis using RemoveClick
    by (auto simp: stable_def find_edit_def remove_click_def Let_def)
qed (auto simp: stable_def find_edit_def on_focus_def on_blur_def on_mouseenter_def on_mouseleave_def field_remove_click_def field_remove_click_p0_def Let_def)

lemma reachable_stable: "reachable w \<Longrightarrow> stable w"
  by (induction rule: reachable.induct) (simp_all add: stable_constructed stable_fire)

lemma stable_constructed_p0: "PicoTagEditor_p0 inp opts = Inr w \<Longrightarrow> stable_p0 w"
  by (auto simp: stable_p0_def find_edit_def PicoTagEditor_p0_def init_p0_def addEvent_p0_def split: if_splits)

lemma stable_fire_p0: "stable_p0 w \<Longrightarrow> stable_p0 (snd (fire_p0 ev w))"
  by (cases ev)
     (auto simp: stable_p0_def on_keypress_p0_def addTag_p0_def append_chip_def field_is_container_def remove_click_p0_def
        on_focus_def on_blur_def on_mouseenter_def on_mouseleave_def field_remove_click_def field_remove_click_p0_def Let_def)

lemma reachable_stable_p0: "reachable_p0 w \<Longrightarrow> stable_p0 w"
  by (induction rule: reachable_p0.induct) (simp_all add: stable_constructed_p0 stable_fire_p0)

lemma reachable_listening: "reachable w \<Longrightarrow> listening w = find_edit w"
  using reachable_stable [of w] by (simp add: stable_def)

lemma reachable_listening_p0: "reachable_p0 w \<Longrightarrow> listening w"
  using reachable_stable_p0 [of w] by (simp add: stable_p0_def)

lemma reachable_hidden_names:
  "reachable w \<Longrightarrow> name w = Some [] \<and> (\<forall>c \<in> set (tags w). hidden_name c = ''[]'')"
proof (induction rule: reachable.induct)
  case (constructed inp opts callback)
  show ?case
    by (cases callback) (simp_all add: PicoTagEditor_def init_def addEvents_def Let_def)
next
  case (after_event w ev)
  then show ?case
  proof (cases ev)
    case (Keypress k)
    with after_event show ?thesis
      by (auto simp: on_keypress_def addTag_def append_chip_def field_is_container_def Let_def)
  next
    case (RemoveClick i)
    with after_event show ?thesis
      by (auto simp: remove_click_def Let_def dest: in_set_takeD in_set_dropD)
  qed (auto simp: on_focus_def on_blur_def on_mouseenter_def on_mouseleave_def field_remove_click_def field_remove_click_p0_def Let_def)
qed

lemma reachable_run: "reachable w \<Longrightarrow> reachable (run evs w)"
  by (induction evs arbitrary: w) (simp_all add: reachable.after_event)

lemma reachable_run_p0: "reachable_p0 w \<Longrightarrow> reachable_p0 (run_p0 evs w)"
  by (induction evs arbitrary: w) (simp_all add: reachable_p0.after_event_p0)

subsection \<open>The example widgets\<close>

lemma tags_input_found: "has_class ''pico-tag-edit'' (fclass tags_input)"
  by (simp add: has_class_def tags_input_def is_ascii_ws_def)

lemma tags_input_fields:
  "fname tags_input = Some ''tags''" "fid tags_input = None"
  "fclass tags_input = Some ''pico-tag-edit''" "fplaceholder tags_input = Some ''Add tag...''"
  "fvalue tags_input = []"
  by (simp_all add: tags_input_def)



lemma constructed_tags_input:
  "PicoTagEditor tags_input opts None = (init (merge_settings opts) tags_input)\<lparr>listening := True\<rparr>"
  by (simp add: PicoTagEditor_def addEvents_def find_edit_def init_def tags_input_found Let_def)

lemma constructed_tags_input_p0:
  "PicoTagEditor_p0 tags_input opts = Inr ((init_p0 (merge_settings opts) tags_input)\<lparr>listening := True\<rparr>)"
  by (simp add: PicoTagEditor_p0_def addEvent_p0_def find_edit_def init_p0_def tags_input_def
      has_class_def is_ascii_ws_def)

lemma constructed_unclassed:
  "PicoTagEditor unclassed_input opts None = init (merge_settings opts) unclassed_input"
  by (simp add: PicoTagEditor_def addEvents_def find_edit_def init_def unclassed_input_def
      has_class_def is_ascii_ws_def Let_def)


lemma tags_input_region: "\<not> field_is_container (init s tags_input)"
  "\<not> field_is_container (init_p0 s tags_input)"
  by (simp_all add: field_is_container_def init_def init_p0_def tags_input_fields has_class_def
      is_ascii_ws_def)

lemmas run_defs =
  constructed_tags_input constructed_tags_input_p0 init_def init_p0_def merge_settings_def
  on_keypress_def on_keypress_p0_def addTag_def append_chip_def field_is_container_def addTag_p0_def append_chip_def field_is_container_def remove_click_def remove_click_p0_def
  find_edit_def tags_input_fields has_class_def is_ascii_ws_def trim_def is_space_def Let_def
  styled_def styled_p0_def truthy_attr_def trim_options_def

lemma built_p0_constructed: "PicoTagEditor_p0 tags_input None = Inr built_p0"
  by (simp add: constructed_tags_input_p0 built_p0_def)

lemma reachable_built_p0: "reachable_p0 built_p0"
  by (rule reachable_p0.constructed_p0 [OF built_p0_constructed])

lemma reachable_two_tags: "reachable two_tags"
  unfolding two_tags_def by (intro reachable_run reachable.constructed)

lemma reachable_two_tags_p0: "reachable_p0 two_tags_p0"
  unfolding two_tags_p0_def by (intro reachable_run_p0 reachable_built_p0)

lemma tags_two_tags:
  "tags two_tags =
     [\<lparr>chip_text = ''red'', hidden_name = ''[]'', hidden_value = ''red''\<rparr>,
      \<lparr>chip_text = ''blue'', hidden_name = ''[]'', hidden_value = ''blue''\<rparr>]"
  by (simp add: two_tags_def red_blue_def run_defs)

lemma tags_two_tags_p0:
  "tags two_tags_p0 =
     [\<lparr>chip_text = ''red'', hidden_name = ''tags[]'', hidden_value = ''red''\<rparr>,
      \<lparr>chip_text = ''blue'', hidden_name = ''tags[]'', hidden_value = ''blue''\<rparr>]"
  by (simp add: two_tags_p0_def built_p0_def red_blue_def run_defs)

lemma reachable_one_tag: "reachable (snd (remove_click 0 two_tags))"
  using reachable.after_event [OF reachable_two_tags, of "RemoveClick 0"] by simp

lemma tags_one_tag:
  "tags (snd (remove_click 0 two_tags)) =
     [\<lparr>chip_text = ''blue'', hidden_name = ''[]'', hidden_value = ''blue''\<rparr>]"
  by (simp add: remove_click_def Let_def tags_two_tags)

subsection \<open>The claims\<close>




text \<open>
  C2.  Over a source input named \<^verbatim>\<open>tags\<close>, committing \<^verbatim>\<open>red\<close> and then \<^verbatim>\<open>blue\<close> should give
  two hidden fields named \<^verbatim>\<open>tags[]\<close>.  The second file does so.  \<^verbatim>\<open>PicoTagEditor.js\<close> never
  stores the source's name (its \<^verbatim>\<open>init\<close> clones the input and leaves \<open>name\<close> empty), and its
  hidden fields are both named \<^verbatim>\<open>[]\<close>.
\<close>

theorem C2_hidden_field_name:
  "map (\<lambda>c. (hidden_name c, hidden_value c))
     (tags (run [Typed ''red'', Keypress ''Enter'', Typed ''blue'', Keypress ''Enter'']
        (PicoTagEditor tags_input None None)))
     = [(''[]'', ''red''), (''[]'', ''blue'')] \<and>
   (case PicoTagEditor_p0 tags_input None of
      Inl e \<Rightarrow> False
    | Inr w \<Rightarrow>
        map (\<lambda>c. (hidden_name c, hidden_value c))
          (tags (run_p0 [Typed ''red'', Keypress ''Enter'', Typed ''blue'', Keypress ''Enter''] w))
          = [(''tags[]'', ''red''), (''tags[]'', ''blue'')])"
  by (simp add: run_defs)

text \<open>
  The second file's \<^verbatim>\<open>addTag\<close> appends the brackets without looking: the name \<^verbatim>\<open>tags[]\<close>
  becomes \<^verbatim>\<open>tags[][]\<close>.
\<close>

theorem C3_double_suffix_counterexample:
  "map hidden_name (tags (addTag_p0 (Some ''tags[]'') ''red'' (init_p0 (merge_settings None) tags_input)))
     = [''tags[][]'']"
  by (simp add: run_defs)

text \<open>
  C3, as amended.  \<^verbatim>\<open>addTag(name, text)\<close> appends to its container (the region, unless the
  text field carries the class \<^verbatim>\<open>tags-container\<close>) one chip showing the text, with a hidden
  input whose value is the text.  In \<^verbatim>\<open>PicoTagEditor.js\<close> the hidden input's name is the name
  itself when it contains an opening bracket anywhere, and the name followed by \<^verbatim>\<open>[]\<close>
  otherwise; so a name that ends in \<^verbatim>\<open>[]\<close> is kept as it is.  In the second file the name
  is always followed by \<^verbatim>\<open>[]\<close>.
\<close>

theorem C3_hidden_name_suffix:
  "addTag (Some s) t w =
     (Normal, append_chip \<lparr>chip_text = t,
                hidden_name = (if CHR ''['' \<in> set s then s else s @ ''[]''),
                hidden_value = t\<rparr> w) \<and>
   ((\<exists>r. s = r @ ''[]'') \<longrightarrow>
      addTag (Some s) t w =
        (Normal, append_chip \<lparr>chip_text = t, hidden_name = s, hidden_value = t\<rparr> w)) \<and>
   addTag_p0 (Some s) t w =
     append_chip \<lparr>chip_text = t, hidden_name = s @ ''[]'', hidden_value = t\<rparr> w \<and>
   (\<not> field_is_container w \<longrightarrow>
      append_chip c w = w\<lparr>tags := tags w @ [c], display := ''''\<rparr>)"
  by (auto simp: addTag_def addTag_p0_def append_chip_def Let_def)

theorem C3_hidden_name_suffix_witness:
  "(\<exists>r. ''tags[]'' = r @ ''[]'') \<and>
   \<not> field_is_container (init (merge_settings None) tags_input) \<and>
   map hidden_name (tags (snd (addTag (Some ''tags[]'') ''red'' (init (merge_settings None) tags_input))))
     = [''tags[]''] \<and>
   map hidden_name (tags (snd (addTag (Some ''a[0]'') ''red'' (init (merge_settings None) tags_input))))
     = [''a[0]''] \<and>
   map hidden_name (tags (snd (addTag (Some ''tags'') ''red'' (init (merge_settings None) tags_input))))
     = [''tags[]'']"
proof -
  let ?w = "init (merge_settings None) tags_input"
  have "''tags[]'' = ''tags'' @ ''[]''" by simp
  then have e: "\<exists>r. ''tags[]'' = r @ ''[]''" by blast
  have f: "\<not> field_is_container ?w" by (rule tags_input_region)
  have t: "tags ?w = []" by (simp add: init_def)
  show ?thesis
    using e f t
      C3_hidden_name_suffix [of "''tags[]''" "''red''" ?w
        "\<lparr>chip_text = ''red'', hidden_name = ''tags[]'', hidden_value = ''red''\<rparr>"]
      C3_hidden_name_suffix [of "''a[0]''" "''red''" ?w
        "\<lparr>chip_text = ''red'', hidden_name = ''a[0]'', hidden_value = ''red''\<rparr>"]
      C3_hidden_name_suffix [of "''tags''" "''red''" ?w
        "\<lparr>chip_text = ''red'', hidden_name = ''tags[]'', hidden_value = ''red''\<rparr>"]
    by simp
qed

text \<open>
  C4.  In every reachable state, for every chip in the region (position \<open>i\<close>), the click
  listener of its remove control ends normally, removes that chip, leaves the text field
  focused, and leaves the region hidden if no chip remains and visible otherwise.
\<close>

theorem C4_remove_chip:
  assumes "i < length (tags w)"
  shows "(reachable w \<longrightarrow>
           (\<exists>w'. remove_click i w = (Normal, w') \<and>
              tags w' = take i (tags w) @ drop (Suc i) (tags w) \<and> focused w' \<and>
              display w' = (if tags w' = [] then ''none'' else ''''))) \<and>
         (reachable_p0 w \<longrightarrow>
           (\<exists>w'. remove_click_p0 i w = (Normal, w') \<and>
              tags w' = take i (tags w) @ drop (Suc i) (tags w) \<and> focused w' \<and>
              display w' = (if tags w' = [] then ''none'' else '''')))"
proof (intro conjI impI)
  assume "reachable w"
  then have s: "stable w" by (rule reachable_stable)
  from assms have "tags w \<noteq> []" by auto
  with s have "find_edit w" "display w = ''''" by (auto simp: stable_def)
  with assms show "\<exists>w'. remove_click i w = (Normal, w') \<and>
      tags w' = take i (tags w) @ drop (Suc i) (tags w) \<and> focused w' \<and>
      display w' = (if tags w' = [] then ''none'' else '''')"
    by (simp add: remove_click_def Let_def find_edit_def)
next
  assume "reachable_p0 w"
  then have s: "stable_p0 w" by (rule reachable_stable_p0)
  from assms have "tags w \<noteq> []" by auto
  with s have "display w = ''''" by (auto simp: stable_p0_def)
  with assms show "\<exists>w'. remove_click_p0 i w = (Normal, w') \<and>
      tags w' = take i (tags w) @ drop (Suc i) (tags w) \<and> focused w' \<and>
      display w' = (if tags w' = [] then ''none'' else '''')"
    by (simp add: remove_click_p0_def Let_def)
qed

theorem C4_remove_chip_witness:
  "reachable two_tags \<and> 0 < length (tags two_tags) \<and>
   (\<exists>w'. remove_click 0 two_tags = (Normal, w') \<and> map chip_text (tags w') = [''blue''] \<and>
      focused w' \<and> display w' = []) \<and>
   reachable (snd (remove_click 0 two_tags)) \<and> 0 < length (tags (snd (remove_click 0 two_tags))) \<and>
   (\<exists>w'. remove_click 0 (snd (remove_click 0 two_tags)) = (Normal, w') \<and> tags w' = [] \<and>
      focused w' \<and> display w' = ''none'') \<and>
   reachable_p0 two_tags_p0 \<and> 1 < length (tags two_tags_p0) \<and>
   (\<exists>w'. remove_click_p0 1 two_tags_p0 = (Normal, w') \<and> map chip_text (tags w') = [''red''] \<and>
      focused w' \<and> display w' = [])"
proof -
  have l: "0 < length (tags two_tags)" "1 < length (tags two_tags_p0)"
      "0 < length (tags (snd (remove_click 0 two_tags)))"
    by (simp_all add: tags_two_tags tags_two_tags_p0 tags_one_tag)
  have a: "\<exists>w'. remove_click 0 two_tags = (Normal, w') \<and> map chip_text (tags w') = [''blue''] \<and>
      focused w' \<and> display w' = []"
    using C4_remove_chip [OF l(1)] reachable_two_tags by (fastforce simp: tags_two_tags)
  have b: "\<exists>w'. remove_click 0 (snd (remove_click 0 two_tags)) = (Normal, w') \<and> tags w' = [] \<and>
      focused w' \<and> display w' = ''none''"
    using C4_remove_chip [OF l(3)] reachable_one_tag by (fastforce simp: tags_one_tag)
  have c: "\<exists>w'. remove_click_p0 1 two_tags_p0 = (Normal, w') \<and>
      map chip_text (tags w') = [''red''] \<and> focused w' \<and> display w' = []"
    using C4_remove_chip [OF l(2)] reachable_two_tags_p0 by (fastforce simp: tags_two_tags_p0)
  from l reachable_two_tags reachable_two_tags_p0 reachable_one_tag a b c show ?thesis
    by blast
qed

text \<open>
  C5.  In every reachable state (after construction and after any sequence of events) the
  region's display is \<^verbatim>\<open>none\<close> when it has no chip and empty, that is visible, otherwise.
\<close>

theorem C5_visibility_invariant:
  "(reachable w \<longrightarrow> display w = (if tags w = [] then ''none'' else '''')) \<and>
   (reachable_p0 w \<longrightarrow> display w = (if tags w = [] then ''none'' else ''''))"
  using reachable_stable [of w] reachable_stable_p0 [of w]
  by (auto simp: stable_def stable_p0_def)

theorem C5_visibility_invariant_witness:
  "reachable (PicoTagEditor tags_input None None) \<and>
   tags (PicoTagEditor tags_input None None) = [] \<and>
   display (PicoTagEditor tags_input None None) = ''none'' \<and>
   reachable two_tags \<and> length (tags two_tags) = 2 \<and> display two_tags = [] \<and>
   reachable_p0 built_p0 \<and> tags built_p0 = [] \<and> display built_p0 = ''none'' \<and>
   reachable_p0 two_tags_p0 \<and> length (tags two_tags_p0) = 2 \<and> display two_tags_p0 = []"
proof -
  have r: "reachable (PicoTagEditor tags_input None None)" "reachable_p0 built_p0"
    by (rule reachable.constructed, rule reachable_built_p0)
  have t: "tags (PicoTagEditor tags_input None None) = []" "tags built_p0 = []"
    by (simp_all add: constructed_tags_input init_def built_p0_def init_p0_def)
  show ?thesis
    using r t reachable_two_tags reachable_two_tags_p0
      C5_visibility_invariant [of "PicoTagEditor tags_input None None"]
      C5_visibility_invariant [of two_tags]
      C5_visibility_invariant [of built_p0]
      C5_visibility_invariant [of two_tags_p0]
    by (simp add: tags_two_tags tags_two_tags_p0)
qed

text \<open>
  C6.  When Enter is pressed and the field's value is empty or white space only, the
  key-press listener changes nothing: no chip, no hidden field, the same visibility.
\<close>

theorem C6_blank_commit_rejected:
  assumes "list_all is_space (fvalue (inputElement w))"
  shows "on_keypress ''Enter'' w = (Normal, w) \<and> on_keypress_p0 ''Enter'' w = w \<and>
         fire (Keypress ''Enter'') w = (Normal, w) \<and> fire_p0 (Keypress ''Enter'') w = (Normal, w)"
  using assms by (simp add: on_keypress_def on_keypress_p0_def trim_empty_iff [symmetric])

theorem C6_blank_commit_rejected_witness:
  "list_all is_space (fvalue (inputElement (snd (fire (Typed ''   '') two_tags)))) \<and>
   on_keypress ''Enter'' (snd (fire (Typed ''   '') two_tags))
     = (Normal, snd (fire (Typed ''   '') two_tags)) \<and>
   list_all is_space (fvalue (inputElement built_p0)) \<and>
   on_keypress_p0 ''Enter'' built_p0 = built_p0"
proof -
  have a: "list_all is_space (fvalue (inputElement (snd (fire (Typed ''   '') two_tags))))"
    by (simp add: is_space_def)
  have b: "list_all is_space (fvalue (inputElement built_p0))"
    by (simp add: built_p0_def init_p0_def)
  from a b C6_blank_commit_rejected [OF a] C6_blank_commit_rejected [OF b] show ?thesis
    by simp
qed

text \<open>
  A string that reads as a number is not passed through: the height \<^verbatim>\<open>"120"\<close> is styled as
  \<^verbatim>\<open>120px\<close> in both files.  And a number does not always get the unit: \<^verbatim>\<open>1e21\<close> prints as
  \<^verbatim>\<open>1e+21\<close>, which the pattern of \<^verbatim>\<open>isNumber\<close> does not match, and is assigned as it is.
\<close>

theorem C7_dimension_counterexample:
  "configured Height (merge_settings (Some size_options)) = Str ''120'' \<and>
   applied Height (init (merge_settings (Some size_options)) tags_input) = Some ''120px'' \<and>
   applied Height (init_p0 (merge_settings (Some size_options)) tags_input) = Some ''120px'' \<and>
   applied Width
     (init (merge_settings (Some (size_options\<lparr>opt_width := Num (Dec False 1 22)\<rparr>))) tags_input)
     = Some ''1e+21'' \<and>
   applied Width
     (init_p0 (merge_settings (Some (size_options\<lparr>opt_width := Num (Dec False 1 22)\<rparr>))) tags_input)
     = Some ''1e+21''"
  by (simp add: init_def init_p0_def merge_settings_def size_options_def styled_def styled_p0_def
      isNumber_Num example_digits)
     (simp add: isNumber_def numeral_regex_def unsigned_numeral_def is_digit_def)

text \<open>
  C7, as amended.  For each of the three dimension options, in the second file for every
  value and in \<^verbatim>\<open>PicoTagEditor.js\<close> for every truthy value: a number that prints without an
  exponent (\<^verbatim>\<open>120\<close>, \<^verbatim>\<open>12.5\<close>) is styled as its string followed by \<^verbatim>\<open>px\<close>, and any other
  number as its string alone; a string that matches the numeral pattern is styled as itself
  followed by \<^verbatim>\<open>px\<close>, and any other string as itself.  An option that is not set styles
  nothing.  What \<^verbatim>\<open>PicoTagEditor.js\<close> does with the falsy values is not part of the statement.
\<close>

theorem C7_dimension_styles:
  "(configured d s = Num x \<longrightarrow>
      applied d (init_p0 s inp) =
        Some (if plain_decimal x then number_to_string x @ ''px'' else number_to_string x) \<and>
      (truthy (Num x) \<longrightarrow>
         applied d (init s inp) =
           Some (if plain_decimal x then number_to_string x @ ''px'' else number_to_string x))) \<and>
   (configured d s = Str t \<longrightarrow>
      applied d (init_p0 s inp) = Some (if numeral_regex t then t @ ''px'' else t) \<and>
      (t \<noteq> [] \<longrightarrow>
         applied d (init s inp) = Some (if numeral_regex t then t @ ''px'' else t))) \<and>
   (configured d s = Unset \<longrightarrow>
      applied d (init s inp) = None \<and> applied d (init_p0 s inp) = None)"
  by (cases d)
     (auto simp: init_def init_p0_def styled_def styled_p0_def isNumber_Num
        isNumber_def [of "Str t", simplified])

theorem C7_dimension_styles_witness:
  "configured MaxHeight (merge_settings (Some size_options)) = Num (Dec False 12 3) \<and>
   truthy (Num (Dec False 12 3)) \<and>
   applied MaxHeight (init (merge_settings (Some size_options)) tags_input) = Some ''120px'' \<and>
   applied MaxHeight (init_p0 (merge_settings (Some size_options)) tags_input) = Some ''120px'' \<and>
   applied MaxHeight
     (init (merge_settings (Some (size_options\<lparr>opt_maxHeight := Num (Dec False 125 2)\<rparr>)))
        tags_input) = Some ''12.5px'' \<and>
   configured Width (merge_settings (Some size_options)) = Str ''50%'' \<and>
   applied Width (init (merge_settings (Some size_options)) tags_input) = Some ''50%'' \<and>
   applied Width (init_p0 (merge_settings (Some size_options)) tags_input) = Some ''50%'' \<and>
   configured Width (merge_settings None) = Unset \<and>
   applied Width (init (merge_settings None) tags_input) = None \<and>
   applied Width (init_p0 (merge_settings None) tags_input) = None"
proof -
  let ?s = "merge_settings (Some size_options)"
  let ?f = "merge_settings (Some (size_options\<lparr>opt_maxHeight := Num (Dec False 125 2)\<rparr>))"
  have c1: "configured MaxHeight ?s = Num (Dec False 12 3)"
    and c2: "configured Width ?s = Str ''50%''"
    and c3: "configured Width (merge_settings None) = Unset"
    and c4: "configured MaxHeight ?f = Num (Dec False 125 2)"
    by (simp_all add: merge_settings_def size_options_def)
  have r: "\<not> numeral_regex ''50%''"
    by (simp add: numeral_regex_def unsigned_numeral_def is_digit_def)
  show ?thesis
    using c1 c2 c3 c4 r
      C7_dimension_styles [of MaxHeight ?s "Dec False 12 3" tags_input "[]"]
      C7_dimension_styles [of MaxHeight ?f "Dec False 125 2" tags_input "[]"]
      C7_dimension_styles [of Width ?s Zero tags_input "''50%''"]
      C7_dimension_styles [of Width "merge_settings None" Zero tags_input "[]"]
    by (simp add: example_digits)
qed

text \<open>
  Over an input without the class \<^verbatim>\<open>pico-tag-edit\<close>, \<^verbatim>\<open>addEvents\<close> of \<^verbatim>\<open>PicoTagEditor.js\<close>
  returns before it attaches anything: a focus or a blur event on the text field leaves the
  wrapper without the attribute.
\<close>

theorem C8_unattached_counterexample:
  "data_focus (snd (fire Focus (PicoTagEditor unclassed_input None None))) = None \<and>
   data_focus (snd (fire Blur (PicoTagEditor unclassed_input None None))) = None"
  by (simp add: constructed_unclassed init_def)

text \<open>
  C8, as amended.  Where the listeners are attached, a focus event on the text field sets
  \<^verbatim>\<open>data-focus\<close> to \<^verbatim>\<open>true\<close>, and a blur event sets it to \<^verbatim>\<open>true\<close> if \<open>debug\<close> is set or the
  pointer is over the wrapper, and to \<^verbatim>\<open>false\<close> otherwise.  A widget built by the second
  file always has them attached; one built by \<^verbatim>\<open>PicoTagEditor.js\<close> has them exactly when the
  query for the text field finds it, and without them neither event changes the attribute.
\<close>

theorem C8_focus_attribute:
  "(listening w \<longrightarrow>
      data_focus (snd (fire Focus w)) = Some ''true'' \<and>
      data_focus (snd (fire Blur w)) =
        Some (if debug (settings w) \<or> mouseEnter w then ''true'' else ''false'') \<and>
      data_focus (snd (fire_p0 Focus w)) = Some ''true'' \<and>
      data_focus (snd (fire_p0 Blur w)) =
        Some (if debug (settings w) \<or> mouseEnter w then ''true'' else ''false'')) \<and>
   (reachable w \<longrightarrow> listening w = find_edit w) \<and>
   (reachable_p0 w \<longrightarrow> listening w) \<and>
   (\<not> listening w \<longrightarrow>
      data_focus (snd (fire Focus w)) = data_focus w \<and>
      data_focus (snd (fire Blur w)) = data_focus w)"
  using reachable_listening [of w] reachable_listening_p0 [of w]
  by (simp add: on_focus_def on_blur_def)

theorem C8_focus_attribute_witness:
  "reachable (PicoTagEditor tags_input None None) \<and>
   find_edit (PicoTagEditor tags_input None None) \<and>
   listening (PicoTagEditor tags_input None None) \<and>
   data_focus (snd (fire Focus (PicoTagEditor tags_input None None))) = Some ''true'' \<and>
   data_focus (snd (fire Blur (PicoTagEditor tags_input None None))) = Some ''false'' \<and>
   listening (snd (fire MouseEnter (PicoTagEditor tags_input None None))) \<and>
   data_focus (snd (fire Blur (snd (fire MouseEnter (PicoTagEditor tags_input None None)))))
     = Some ''true'' \<and>
   reachable_p0 built_p0 \<and> listening built_p0 \<and>
   data_focus (snd (fire_p0 Focus built_p0)) = Some ''true'' \<and>
   data_focus (snd (fire_p0 Blur built_p0)) = Some ''false'' \<and>
   reachable (PicoTagEditor unclassed_input None None) \<and>
   \<not> listening (PicoTagEditor unclassed_input None None) \<and>
   data_focus (snd (fire Focus (PicoTagEditor unclassed_input None None))) = None"
proof -
  let ?a = "PicoTagEditor tags_input None None"
  let ?u = "PicoTagEditor unclassed_input None None"
  have r: "reachable ?a" "reachable ?u" by (rule reachable.constructed)+
  have f: "find_edit ?a"
    by (simp add: constructed_tags_input find_edit_def init_def tags_input_found)
  have m: "listening (snd (fire MouseEnter ?a))"
    by (simp add: constructed_tags_input on_mouseenter_def)
  have u: "\<not> listening ?u" "data_focus ?u = None"
    by (simp_all add: constructed_unclassed init_def)
  show ?thesis
    using r f m u reachable_built_p0
      C8_focus_attribute [of ?a] C8_focus_attribute [of "snd (fire MouseEnter ?a)"]
      C8_focus_attribute [of built_p0] C8_focus_attribute [of ?u]
    by (simp add: constructed_tags_input built_p0_def init_def init_p0_def merge_settings_def
        on_mouseenter_def)
qed

text \<open>
  C9.  When the query for the text field finds nothing, \<^verbatim>\<open>addEvents\<close> of
  \<^verbatim>\<open>PicoTagEditor.js\<close> returns the widget as it is, with nothing attached and no error; the
  second file's \<^verbatim>\<open>addEvent\<close> has no such guard and throws a \<^verbatim>\<open>TypeError\<close>.
\<close>

theorem C9_missing_field_guard:
  assumes "\<not> find_edit w"
  shows "addEvents w = w \<and> addEvent_p0 w = Inl TypeError"
  using assms by (simp add: addEvents_def addEvent_p0_def)

theorem C9_missing_field_guard_witness:
  "\<not> find_edit (init (merge_settings None) unclassed_input) \<and>
   addEvents (init (merge_settings None) unclassed_input) = init (merge_settings None) unclassed_input \<and>
   \<not> listening (PicoTagEditor unclassed_input None None) \<and>
   \<not> find_edit (init_p0 (merge_settings None) unclassed_input) \<and>
   PicoTagEditor_p0 unclassed_input None = Inl TypeError"
proof -
  have a: "\<not> find_edit (init (merge_settings None) unclassed_input)"
    and b: "\<not> find_edit (init_p0 (merge_settings None) unclassed_input)"
    by (simp_all add: find_edit_def init_def init_p0_def unclassed_input_def has_class_def
        is_ascii_ws_def)
  from a b C9_missing_field_guard [OF a] C9_missing_field_guard [OF b] show ?thesis
    by (simp add: PicoTagEditor_def PicoTagEditor_p0_def init_def)
qed

text \<open>
  C10.  The click listener of the remove control of the chip at position \<open>i\<close> removes that
  chip, its hidden input with it, and keeps every other chip (text, hidden name and hidden
  value) in its order; the text field, its current value included, is unchanged.
\<close>

theorem C10_remove_frame:
  assumes "i < length (tags w)"
  shows "tags (snd (remove_click i w)) = take i (tags w) @ drop (Suc i) (tags w) \<and>
         inputElement (snd (remove_click i w)) = inputElement w \<and>
         tags (snd (remove_click_p0 i w)) = take i (tags w) @ drop (Suc i) (tags w) \<and>
         inputElement (snd (remove_click_p0 i w)) = inputElement w"
  using assms by (simp add: remove_click_def remove_click_p0_def Let_def)

theorem C10_remove_frame_witness:
  "0 < length (tags two_tags) \<and>
   tags (snd (remove_click 0 two_tags))
     = [\<lparr>chip_text = ''blue'', hidden_name = ''[]'', hidden_value = ''blue''\<rparr>] \<and>
   inputElement (snd (remove_click 0 two_tags)) = inputElement two_tags \<and>
   0 < length (tags two_tags_p0) \<and>
   tags (snd (remove_click_p0 0 two_tags_p0))
     = [\<lparr>chip_text = ''blue'', hidden_name = ''tags[]'', hidden_value = ''blue''\<rparr>] \<and>
   inputElement (snd (remove_click_p0 0 two_tags_p0)) = inputElement two_tags_p0"
proof -
  have a: "0 < length (tags two_tags)" and b: "0 < length (tags two_tags_p0)"
    by (simp_all add: tags_two_tags tags_two_tags_p0)
  from a b C10_remove_frame [OF a] C10_remove_frame [OF b] show ?thesis
    by (simp add: tags_two_tags tags_two_tags_p0)
qed

end
